theory Spec2Isabelle
  imports Main "HOL-Library.Multiset"
begin

section \<open>Python values and string primitives used by the header analyzers\<close>

text \<open>
  The header values handed to the analyzers are Python \<open>str\<close> objects that the HTTP
  client decoded as Latin-1, so a character is one of 256 code points and is modelled by
  \<^typ>\<open>char\<close>. The functions below are the \<open>str\<close> methods and built-ins that
  \<open>headers.py\<close> calls, restricted to that range.
\<close>

datatype exn = IndexError | ValueError | KeyError | TypeError | AttributeError

definition py_isspace :: "char \<Rightarrow> bool" where
  \<comment> \<open>the code points below 256 for which \<open>str.isspace\<close> holds\<close>
  "py_isspace c =
     (let n = (of_char c :: int)
      in (9 \<le> n \<and> n \<le> 13) \<or> (28 \<le> n \<and> n \<le> 32) \<or> n = 133 \<or> n = 160)"

definition py_lower_char :: "char \<Rightarrow> char" where
  \<comment> \<open>\<open>A\<close>..\<open>Z\<close> and the upper-case letters of Latin-1 (192..222 except the
      multiplication sign 215) move up by 32\<close>
  "py_lower_char c =
     (let n = (of_char c :: int)
      in if (65 \<le> n \<and> n \<le> 90) \<or> (192 \<le> n \<and> n \<le> 222 \<and> n \<noteq> 215)
         then char_of (n + 32) else c)"

definition py_lower :: "string \<Rightarrow> string" where
  "py_lower s = map py_lower_char s"

definition py_strip :: "string \<Rightarrow> string" where
  "py_strip s = rev (dropWhile py_isspace (rev (dropWhile py_isspace s)))"

fun py_split :: "char \<Rightarrow> string \<Rightarrow> string list" where
  \<comment> \<open>\<open>s.split(sep)\<close> for a one-character separator: never an empty list\<close>
  "py_split sep [] = [[]]"
| "py_split sep (c # cs) =
     (if c = sep then [] # py_split sep cs
      else (case py_split sep cs of
              w # ws \<Rightarrow> (c # w) # ws
            | [] \<Rightarrow> [[c]]))"

fun split_ws_from :: "string \<Rightarrow> string \<Rightarrow> string list" where
  \<comment> \<open>the second argument is the word being read, reversed\<close>
  "split_ws_from [] cur = (if cur = [] then [] else [rev cur])"
| "split_ws_from (c # cs) cur =
     (if py_isspace c
      then (if cur = [] then split_ws_from cs [] else rev cur # split_ws_from cs [])
      else split_ws_from cs (c # cur))"

definition py_split_ws :: "string \<Rightarrow> string list" where
  \<comment> \<open>\<open>s.split()\<close>: the maximal runs of non-whitespace\<close>
  "py_split_ws s = split_ws_from s []"

definition py_split_ws_max1 :: "string \<Rightarrow> string list" where
  \<comment> \<open>\<open>s.split(maxsplit=1)\<close>: the first word, then the rest after the
      whitespace that follows it (with whatever it ends in), when there is one\<close>
  "py_split_ws_max1 s =
     (let s1 = dropWhile py_isspace s
      in if s1 = [] then []
         else let w = takeWhile (\<lambda>c. \<not> py_isspace c) s1;
                  r = dropWhile py_isspace (dropWhile (\<lambda>c. \<not> py_isspace c) s1)
              in if r = [] then [w] else [w, r])"

definition py_startswith :: "string \<Rightarrow> string \<Rightarrow> bool" where
  "py_startswith p s = (take (length p) s = p)"

fun py_contains :: "string \<Rightarrow> string \<Rightarrow> bool" where
  \<comment> \<open>\<open>sub in s\<close> for two strings\<close>
  "py_contains sub [] = (sub = [])"
| "py_contains sub (c # cs) = (py_startswith sub (c # cs) \<or> py_contains sub cs)"

definition is_digit :: "char \<Rightarrow> bool" where
  "is_digit c = (let n = (of_char c :: int) in 48 \<le> n \<and> n \<le> 57)"

fun digits_ok :: "string \<Rightarrow> bool" where
  \<comment> \<open>decimal digits, single underscores allowed between two digits\<close>
  "digits_ok [] = False"
| "digits_ok [c] = is_digit c"
| "digits_ok (c # d # cs) =
     (is_digit c \<and> (if d = CHR ''_'' then digits_ok cs else digits_ok (d # cs)))"

fun digits_value :: "string \<Rightarrow> int \<Rightarrow> int" where
  "digits_value [] acc = acc"
| "digits_value (c # cs) acc =
     (if c = CHR ''_'' then digits_value cs acc
      else digits_value cs (10 * acc + (of_char c - 48)))"

definition py_int :: "string \<Rightarrow> int option" where
  \<comment> \<open>\<open>int(s)\<close> in base ten: surrounding whitespace, one optional sign, digits
      (single underscores between digits, as Python 3.6 and later accept);
      \<open>None\<close> stands for the \<open>ValueError\<close> it raises\<close>
  "py_int s =
     (let t = py_strip s;
          neg = (t \<noteq> [] \<and> hd t = CHR ''-'');
          ds = (if t \<noteq> [] \<and> (hd t = CHR ''-'' \<or> hd t = CHR ''+'') then tl t else t)
      in if digits_ok ds
         then Some (if neg then - digits_value ds 0 else digits_value ds 0)
         else None)"

section \<open>The request bundle\<close>

text \<open>
  A response carries its final URL and a case-insensitive header mapping. The analyzers
  read the URL only through \<open>urlparse(response.url).scheme\<close> and
  \<open>urlparse(response.url).netloc\<close>, which are the two URL fields of the record. The
  header mapping is the store of \<open>requests\<close>' \<open>CaseInsensitiveDict\<close>: its items,
  keyed by the lower-cased field name.
\<close>

record response =
  url_scheme :: string
  url_netloc :: string
  headers :: "(string \<times> string) list"

definition header_get :: "response \<Rightarrow> string \<Rightarrow> string option" where
  \<comment> \<open>\<open>response.headers.get(name)\<close>; \<open>name in response.headers\<close> is
      \<open>header_get r name \<noteq> None\<close>\<close>
  "header_get r name = map_of (headers r) (py_lower name)"

record cookie =
  name :: string
  domain :: "string option"
  expires :: "int option"
  path :: "string option"
  port :: "string option"
  secure :: bool
  httponly :: "bool option"
  rest :: "string list option"

text \<open>
  A cookie is an \<open>http.cookiejar.Cookie\<close>. Its \<open>domain\<close>, \<open>expires\<close>, \<open>path\<close> and
  \<open>port\<close> are only copied into the jar (\<open>None\<close> is Python's \<open>None\<close>, also what
  \<open>getattr(cookie, i, None)\<close> gives for an attribute that is not there). Field
  \<^const>\<open>httponly\<close> is \<open>None\<close> while the object has no attribute \<open>httponly\<close>
  (\<open>hasattr\<close> is false) and \<open>Some b\<close> once it has one; \<^const>\<open>rest\<close> is the list of
  keys of \<open>cookie._rest\<close>, \<open>None\<close> when the object has no such attribute.
\<close>

record reqs =
  responses_auto :: response
  responses_https :: "response option"
  session_cookies :: "cookie list"

section \<open>Verdict records\<close>

text \<open>
  Every analyzer builds a dictionary \<open>output\<close> with the keys \<open>data\<close>,
  \<open>expectation\<close>, \<open>pass\<close> and \<open>result\<close>; the HSTS analyzer adds four keys. The
  decorator \<open>scored_test\<close> that wraps each analyzer lives in another module; the
  functions below are the decorated bodies.
\<close>

record 'd verdict =
  data :: "'d option"
  expectation :: string
  pass :: bool
  result :: "string option"

record hsts_output = "string verdict" +
  includeSubDomains :: "bool option"
  max_age :: "int option"
  preload :: "bool option"
  preloaded :: bool

section \<open>strict_transport_security\<close>

definition SIX_MONTHS :: int where
  "SIX_MONTHS = 15552000"

definition py_truthy_str :: "string option \<Rightarrow> bool" where
  "py_truthy_str v = (case v of None \<Rightarrow> False | Some s \<Rightarrow> s \<noteq> [])"

definition hsts_item_truthy :: "hsts_output \<Rightarrow> string \<Rightarrow> exn + bool" where
  \<comment> \<open>the truth value of \<open>output[key]\<close>: the dictionary has exactly eight keys, any
      other subscript raises \<open>KeyError\<close>\<close>
  "hsts_item_truthy out key =
     (if key = ''data'' then Inr (py_truthy_str (data out))
      else if key = ''expectation'' then Inr (expectation out \<noteq> [])
      else if key = ''includeSubDomains'' then Inr (includeSubDomains out = Some True)
      else if key = ''max-age'' then Inr (max_age out \<noteq> None \<and> max_age out \<noteq> Some 0)
      else if key = ''pass'' then Inr (pass out)
      else if key = ''preload'' then Inr (preload out = Some True)
      else if key = ''preloaded'' then Inr (preloaded out)
      else if key = ''result'' then Inr (py_truthy_str (result out))
      else Inl KeyError)"

fun sts_parameters :: "string list \<Rightarrow> hsts_output \<Rightarrow> exn option \<times> hsts_output" where
  \<comment> \<open>\<open>for parameter in sts\<close>: the stores made before an exception stay in \<open>output\<close>\<close>
  "sts_parameters [] out = (None, out)"
| "sts_parameters (parameter # ps) out =
     (if py_startswith ''max-age='' parameter then
        (case py_int (drop 8 parameter) of
           None \<Rightarrow> (Some ValueError, out)
         | Some n \<Rightarrow> sts_parameters ps (out\<lparr>max_age := Some n\<rparr>))
      else if parameter = ''includesubdomains'' then
        sts_parameters ps (out\<lparr>includeSubDomains := Some True\<rparr>)
      else if parameter = ''preload'' then
        sts_parameters ps (out\<lparr>preload := Some True\<rparr>)
      else sts_parameters ps out)"

definition sts_try :: "string \<Rightarrow> hsts_output \<Rightarrow> exn option \<times> hsts_output" where
  \<comment> \<open>the body of the \<open>try\<close> block (lines 233 to 255); the first component is the
      exception that left it, if any\<close>
  "sts_try d out =
     (let sts = map (\<lambda>i. py_strip (py_lower i)) (py_split CHR '';'' d)
      in case sts_parameters sts out of
           (Some e, out1) \<Rightarrow> (Some e, out1)
         | (None, out1) \<Rightarrow>
             (case hsts_item_truthy out1 ''max-age'' of
                Inl e \<Rightarrow> (Some e, out1)
              | Inr has_age \<Rightarrow>
                  let out2 =
                        (if has_age then
                           (if the (max_age out1) < SIX_MONTHS
                            then out1\<lparr>result := Some ''hsts-implemented-max-age-less-than-six-months''\<rparr>
                            else out1\<lparr>result := Some ''hsts-implemented-max-age-at-least-six-months''\<rparr>)
                         else out1\<lparr>result := Some ''hsts-header-invalid''\<rparr>)
                  in (case hsts_item_truthy out2 ''includeubdomains'' of
                        Inl e \<Rightarrow> (Some e, out2)
                      | Inr sub \<Rightarrow>
                          let out3 = (if \<not> sub then out2\<lparr>includeSubDomains := Some False\<rparr> else out2)
                          in (case hsts_item_truthy out3 ''preload'' of
                                Inl e \<Rightarrow> (Some e, out3)
                              | Inr pre \<Rightarrow>
                                  (None, if \<not> pre then out3\<lparr>preload := Some False\<rparr> else out3)))))"

definition hsts_default_expectation :: string where
  "hsts_default_expectation = ''hsts-implemented-max-age-at-least-six-months''"

definition strict_transport_security :: "(string \<Rightarrow> bool) \<Rightarrow> reqs \<Rightarrow> string \<Rightarrow> hsts_output" where
  \<comment> \<open>the first argument is \<open>is_hsts_preloaded\<close>, the preload list of another module\<close>
  "strict_transport_security is_hsts_preloaded rq expect =
     (let output0 = \<lparr>data = None, expectation = expect, pass = False,
                     result = Some ''hsts-not-implemented'',
                     includeSubDomains = None, max_age = None, preload = None,
                     preloaded = False\<rparr>;
          response = responses_https rq;
          output1 =
            (case response of
               None \<Rightarrow> output0\<lparr>result := Some ''hsts-not-implemented-no-https''\<rparr>
             | Some r \<Rightarrow>
                 (case header_get r ''Strict-Transport-Security'' of
                    None \<Rightarrow> output0
                  | Some h \<Rightarrow>
                      (case sts_try (take 1024 h) (output0\<lparr>data := Some (take 1024 h)\<rparr>) of
                         (None, out) \<Rightarrow> out
                       | (Some e, out) \<Rightarrow> out\<lparr>result := Some ''hsts-header-invalid''\<rparr>)));
          output2 =
            (case response of
               None \<Rightarrow> output1
             | Some r \<Rightarrow>
                 if is_hsts_preloaded (url_netloc r)
                 then output1\<lparr>result := Some ''hsts-preloaded'', preloaded := True\<rparr>
                 else output1)
      in if result output2 \<in> {Some ''hsts-implemented-max-age-at-least-six-months'',
                               Some ''hsts-preloaded'', Some expect}
         then output2\<lparr>pass := True\<rparr> else output2)"

section \<open>Dictionaries and the length of \<open>str(...)\<close>\<close>

text \<open>
  A Python dictionary is an association list with distinct keys in insertion order: a
  store to a key that is there replaces its value in place, a store to a new key appends.
\<close>

fun dict_set :: "'k \<Rightarrow> 'v \<Rightarrow> ('k \<times> 'v) list \<Rightarrow> ('k \<times> 'v) list" where
  "dict_set k v [] = [(k, v)]"
| "dict_set k v (kv # kvs) = (if fst kv = k then (k, v) # kvs else kv # dict_set k v kvs)"

definition dict_has :: "('k \<times> 'v) list \<Rightarrow> 'k \<Rightarrow> bool" where
  \<comment> \<open>\<open>k in d\<close>: membership among the keys\<close>
  "dict_has d k = (map_of d k \<noteq> None)"

definition repr_char_len :: "char \<Rightarrow> int" where
  \<comment> \<open>what one character adds to \<open>repr\<close> of a string, quotes counted as one\<close>
  "repr_char_len c =
     (let n = (of_char c :: int)
      in if n = 92 \<or> n = 9 \<or> n = 10 \<or> n = 13 then 2
         else if n < 32 \<or> n = 127 then 4
         else if n < 127 then 1
         else if n \<le> 160 \<or> n = 173 then 4
         else 1)"

definition py_repr_str_len :: "string \<Rightarrow> int" where
  \<comment> \<open>\<open>len(repr(s))\<close>: the two quotes, the characters, and one backslash for every
      single quote when the string holds both kinds of quote\<close>
  "py_repr_str_len s =
     2 + sum_list (map repr_char_len s) +
     (if CHR 0x27 \<in> set s \<and> CHR 0x22 \<in> set s
      then sum_list (map (\<lambda>c. if c = CHR 0x27 then 1 else 0) s) else 0)"

definition py_repr_seq_len :: "int list \<Rightarrow> int" where
  \<comment> \<open>the length of a bracketed display whose items have these lengths: two brackets
      when empty, else every item with a comma and a space, less the last pair, plus the
      brackets\<close>
  "py_repr_seq_len ls = (if ls = [] then 2 else sum_list (map (\<lambda>l. l + 2) ls))"

function int_digits :: "int \<Rightarrow> int" where
  "int_digits n = (if n < 10 then 1 else 1 + int_digits (n div 10))"
  by pat_completeness auto
termination
  by (relation "measure nat") auto

declare int_digits.simps [simp del]

definition py_repr_int_len :: "int \<Rightarrow> int" where
  "py_repr_int_len i = (if i < 0 then 1 + int_digits (- i) else int_digits i)"

section \<open>content_security_policy\<close>

datatype cspval = VNone | VStr string | VList "string list"

type_synonym csp_dict = "(string \<times> cspval) list"

definition csp_get :: "csp_dict \<Rightarrow> string \<Rightarrow> cspval" where
  \<comment> \<open>\<open>csp.get(k)\<close>\<close>
  "csp_get csp k = (case map_of csp k of None \<Rightarrow> VNone | Some v \<Rightarrow> v)"

definition val_contains :: "string \<Rightarrow> cspval \<Rightarrow> exn + bool" where
  \<comment> \<open>\<open>x in v\<close>: membership in a list, substring of a string, \<open>TypeError\<close> on \<open>None\<close>\<close>
  "val_contains x v =
     (case v of VNone \<Rightarrow> Inl TypeError
      | VStr s \<Rightarrow> Inr (py_contains x s)
      | VList l \<Rightarrow> Inr (x \<in> set l))"

definition val_truthy :: "cspval \<Rightarrow> bool" where
  "val_truthy v = (case v of VNone \<Rightarrow> False | VStr s \<Rightarrow> s \<noteq> [] | VList l \<Rightarrow> l \<noteq> [])"

definition val_repr_len :: "cspval \<Rightarrow> int" where
  "val_repr_len v =
     (case v of VNone \<Rightarrow> 4
      | VStr s \<Rightarrow> py_repr_str_len s
      | VList l \<Rightarrow> py_repr_seq_len (map py_repr_str_len l))"

definition csp_repr_len :: "csp_dict \<Rightarrow> int" where
  \<comment> \<open>\<open>len(str(csp))\<close>: every item is key, colon, space, value\<close>
  "csp_repr_len csp =
     py_repr_seq_len (map (\<lambda>kv. py_repr_str_len (fst kv) + 2 + val_repr_len (snd kv)) csp)"

fun csp_entry :: "string list \<Rightarrow> exn + (string \<times> cspval)" where
  \<comment> \<open>\<open>directive[0].lower(): (directive[1].split() if len(directive) > 1 else [])\<close>\<close>
  "csp_entry [] = Inl IndexError"
| "csp_entry [d] = Inr (py_lower d, VList [])"
| "csp_entry (d # v # _) = Inr (py_lower d, VList (py_split_ws v))"

fun csp_build :: "string list list \<Rightarrow> csp_dict \<Rightarrow> exn + csp_dict" where
  "csp_build [] acc = Inr acc"
| "csp_build (directive # ds) acc =
     (case csp_entry directive of
        Inl e \<Rightarrow> Inl e
      | Inr kv \<Rightarrow> csp_build ds (dict_set (fst kv) (snd kv) acc))"

definition csp_parse :: "string \<Rightarrow> exn + csp_dict" where
  \<comment> \<open>the two comprehensions of the \<open>try\<close> block (lines 47 to 49)\<close>
  "csp_parse h =
     csp_build
       (map (\<lambda>directive. py_split_ws_max1 (py_strip directive))
            (filter (\<lambda>directive. directive \<noteq> []) (py_split CHR '';'' h)))
       []"

definition csp_replicate :: "csp_dict \<Rightarrow> csp_dict" where
  \<comment> \<open>lines 56 to 58, stores into \<open>csp\<close>\<close>
  "csp_replicate csp =
     (let csp1 = dict_set ''default-src''
                   (case map_of csp ''default-src'' of None \<Rightarrow> VStr [] | Some v \<Rightarrow> v) csp
      in fold (\<lambda>directive c.
                 dict_set directive
                   (if dict_has c directive then csp_get c directive
                    else csp_get c ''default-src'') c)
              [''script-src'', ''style-src''] csp1)"

definition unsafe_inline :: string where
  \<comment> \<open>the Python literal \<open>'\'unsafe-inline\''\<close>: the keyword between single quotes\<close>
  "unsafe_inline = [CHR 0x27] @ ''unsafe-inline'' @ [CHR 0x27]"

definition unsafe_eval :: string where
  "unsafe_eval = [CHR 0x27] @ ''unsafe-eval'' @ [CHR 0x27]"

definition csp_tests :: "string \<Rightarrow> csp_dict \<Rightarrow> exn + string" where
  \<comment> \<open>lines 61 to 72. \<open>output['data']\<close> was bound to the dictionary \<open>csp\<close> itself at
      line 50, so both names read the one dictionary given here; \<open>in\<close> on a dictionary
      is membership among its keys\<close>
  "csp_tests scheme csp =
     (case val_contains unsafe_inline (csp_get csp ''script-src'') of
        Inl e \<Rightarrow> Inl e
      | Inr True \<Rightarrow> Inr ''csp-implemented-with-unsafe-inline''
      | Inr False \<Rightarrow>
          if \<not> val_truthy (csp_get csp ''default-src'') \<and> \<not> val_truthy (csp_get csp ''script-src'')
          then Inr ''csp-implemented-with-unsafe-inline''
          else if scheme = ''https'' \<and> dict_has csp ''http:''
          then Inr ''csp-implemented-with-insecure-scheme''
          else if dict_has csp unsafe_eval
          then Inr ''csp-implemented-with-unsafe-eval''
          else (case val_contains unsafe_inline (csp_get csp ''style-src'') of
                  Inl e \<Rightarrow> Inl e
                | Inr True \<Rightarrow> Inr ''csp-implemented-with-unsafe-inline-in-style-src-only''
                | Inr False \<Rightarrow> Inr ''csp-implemented-with-no-unsafe''))"

definition expect_pass :: "'d verdict \<Rightarrow> 'd verdict" where
  \<comment> \<open>\<open>if expectation == output['result']: output['pass'] = True\<close>\<close>
  "expect_pass out = (if result out = Some (expectation out) then out\<lparr>pass := True\<rparr> else out)"

definition csp_default_expectation :: string where
  "csp_default_expectation = ''csp-implemented-with-no-unsafe''"

definition content_security_policy :: "reqs \<Rightarrow> string \<Rightarrow> exn + csp_dict verdict" where
  \<comment> \<open>\<open>Inl\<close> is an exception that reaches the caller\<close>
  "content_security_policy rq expect =
     (let output0 = \<lparr>data = None, expectation = expect, pass = False, result = None\<rparr>;
          response = responses_auto rq
      in case header_get response ''Content-Security-Policy'' of
           None \<Rightarrow> Inr (expect_pass (output0\<lparr>result := Some ''csp-not-implemented''\<rparr>))
         | Some h \<Rightarrow>
             (case csp_parse h of
                Inl e \<Rightarrow> Inr (output0\<lparr>result := Some ''csp-header-invalid''\<rparr>)
              | Inr parsed \<Rightarrow>
                  let csp = csp_replicate parsed
                  in (case csp_tests (url_scheme response) csp of
                        Inl e \<Rightarrow> Inl e
                      | Inr res \<Rightarrow>
                          Inr (expect_pass
                                 (output0\<lparr>data := Some (if csp_repr_len csp < 32768 then csp else []),
                                          result := Some res\<rparr>)))))"

section \<open>x_content_type_options and x_frame_options\<close>

definition x_content_type_options :: "reqs \<Rightarrow> string \<Rightarrow> string verdict" where
  "x_content_type_options rq expect =
     (let output0 = \<lparr>data = None, expectation = expect, pass = False, result = None\<rparr>;
          response = responses_auto rq
      in expect_pass
           (case header_get response ''X-Content-Type-Options'' of
              Some h \<Rightarrow>
                if py_lower (take 256 h) = ''nosniff''
                then output0\<lparr>data := Some (take 256 h), result := Some ''x-content-type-options-nosniff''\<rparr>
                else output0\<lparr>data := Some (take 256 h),
                            result := Some ''x-content-type-options-header-invalid''\<rparr>
            | None \<Rightarrow> output0\<lparr>result := Some ''x-content-type-options-not-implemented''\<rparr>))"

definition x_frame_options :: "reqs \<Rightarrow> string \<Rightarrow> exn + string verdict" where
  "x_frame_options rq expect =
     (let output0 = \<lparr>data = None, expectation = expect, pass = False, result = None\<rparr>;
          response = responses_auto rq;
          output1 =
            (case header_get response ''X-Frame-Options'' of
               Some h \<Rightarrow>
                 if py_lower (take 1024 h) \<in> {''deny'', ''sameorigin''}
                 then output0\<lparr>data := Some (take 1024 h),
                             result := Some ''x-frame-options-sameorigin-or-deny''\<rparr>
                 else if py_contains ''allow-from '' (py_lower (take 1024 h))
                 then output0\<lparr>data := Some (take 1024 h),
                             result := Some ''x-frame-options-allow-from-origin''\<rparr>
                 else output0\<lparr>data := Some (take 1024 h),
                             result := Some ''x-frame-options-header-invalid''\<rparr>
             | None \<Rightarrow> output0\<lparr>result := Some ''x-frame-options-not-implemented''\<rparr>)
      in case content_security_policy rq csp_default_expectation of
           Inl e \<Rightarrow> Inl e
         | Inr csp \<Rightarrow>
             let output2 =
                   (if (case data csp of None \<Rightarrow> False | Some d \<Rightarrow> d \<noteq> [] \<and> dict_has d ''frame-ancestors'')
                    then output1\<lparr>result := Some ''x-frame-options-implemented-via-csp''\<rparr>
                    else output1)
             in Inr (if result output2 \<in> {Some ''x-frame-options-sameorigin-or-deny'',
                                            Some ''x-frame-options-implemented-via-csp'',
                                            Some expect}
                     then output2\<lparr>pass := True\<rparr> else output2))"

section \<open>x_xss_protection\<close>

fun xxssp_item :: "string \<Rightarrow> exn + (string \<times> string option)" where
  \<comment> \<open>\<open>d.split('=')[0].strip(): (d.split('=')[1].strip() if '=' in d else None)\<close>\<close>
  "xxssp_item d =
     (case py_split CHR ''='' d of
        [] \<Rightarrow> Inl IndexError
      | k # vs \<Rightarrow>
          if CHR ''='' \<in> set d
          then (case vs of [] \<Rightarrow> Inl IndexError | v # _ \<Rightarrow> Inr (py_strip k, Some (py_strip v)))
          else Inr (py_strip k, None))"

fun xxssp_build :: "string list \<Rightarrow> (string \<times> string option) list \<Rightarrow> exn + (string \<times> string option) list" where
  "xxssp_build [] acc = Inr acc"
| "xxssp_build (d # ds) acc =
     (case xxssp_item d of
        Inl e \<Rightarrow> Inl e
      | Inr kv \<Rightarrow> xxssp_build ds (dict_set (fst kv) (snd kv) acc))"

definition xxssp_parse :: "string \<Rightarrow> exn + (bool \<times> (string \<times> string option) list)" where
  \<comment> \<open>the \<open>try\<close> block (lines 400 to 406): \<open>enabled\<close> and the attribute dictionary\<close>
  "xxssp_parse xxssp =
     (case xxssp of
        [] \<Rightarrow> Inl IndexError
      | c # _ \<Rightarrow>
          if c \<notin> {CHR ''0'', CHR ''1''} then Inl ValueError
          else (case xxssp_build (py_split CHR '';'' xxssp) [] of
                  Inl e \<Rightarrow> Inl e
                | Inr d \<Rightarrow> Inr (c = CHR ''1'', d)))"

definition x_xss_protection :: "reqs \<Rightarrow> string \<Rightarrow> exn + string verdict" where
  "x_xss_protection rq expect =
     (let output0 = \<lparr>data = None, expectation = expect, pass = False, result = None\<rparr>;
          response = responses_auto rq;
          xxssp = header_get response ''X-XSS-Protection'';
          parsed =
            (if py_truthy_str xxssp then
               (case xxssp_parse (the xxssp) of
                  Inl e \<Rightarrow> Inl (output0\<lparr>data := Some (take 256 (the xxssp)),
                                       result := Some ''x-xss-protection-header-invalid''\<rparr>)
                | Inr (enabled, attrs) \<Rightarrow>
                    Inr (output0\<lparr>data := Some (take 256 (the xxssp)),
                                 result :=
                                   (if enabled \<and> map_of attrs ''mode'' = Some (Some ''block'')
                                    then Some ''x-xss-protection-enabled-mode-block''
                                    else if enabled then Some ''x-xss-protection-enabled''
                                    else if \<not> enabled then Some ''x-xss-protection-disabled''
                                    else None)\<rparr>))
             else Inr (output0\<lparr>result := Some ''x-xss-protection-not-implemented''\<rparr>))
      in case parsed of
           Inl invalid \<Rightarrow> Inr invalid
         | Inr output1 \<Rightarrow>
             (case result output1 of
                None \<Rightarrow> Inl TypeError
              | Some r \<Rightarrow>
                  let output2 = (if py_contains ''enabled'' r then output1\<lparr>pass := True\<rparr> else output1)
                  in if \<not> pass output2 then
                       (case content_security_policy rq csp_default_expectation of
                          Inl e \<Rightarrow> Inl e
                        | Inr csp \<Rightarrow>
                            Inr (if pass csp
                                 then output2\<lparr>pass := True,
                                              result := Some ''x-xss-protection-not-needed-due-to-csp''\<rparr>
                                 else output2))
                     else Inr output2))"

section \<open>cookies\<close>

text \<open>
  Modelled from the spec: \<open>only_if_worse\<close> of \<open>httpobs.scanner.analyzer.utils\<close> is
  imported by \<open>headers.py\<close> and is not among the sources. The specification says that the
  merge keeps the current accumulator unless the candidate is strictly worse in the fixed
  order, that ties keep the existing value, and that the order lists the outcomes from
  best to worst; an empty accumulator takes the candidate. A code that the order does not
  list is ranked after every listed one.
\<close>

fun rank :: "'a list \<Rightarrow> 'a \<Rightarrow> nat" where
  "rank [] x = 0"
| "rank (y # ys) x = (if x = y then 0 else Suc (rank ys x))"

definition only_if_worse :: "string \<Rightarrow> string option \<Rightarrow> string list \<Rightarrow> string" where
  \<comment> \<open>Modelled from the spec: the merge-if-worse operation\<close>
  "only_if_worse new_result old_result order =
     (case old_result of
        None \<Rightarrow> new_result
      | Some old \<Rightarrow> if rank order old < rank order new_result then new_result else old)"

definition goodness :: "string list" where
  "goodness = [''cookies-without-secure-flag-but-protected-by-hsts'',
               ''cookies-without-secure-flag'',
               ''cookies-session-without-secure-flag-but-protected-by-hsts'',
               ''cookies-session-without-secure-flag'',
               ''cookies-session-without-httponly-flag'']"

datatype cval = CNone | CBool bool | CInt int | CStr string

definition opt_str :: "string option \<Rightarrow> cval" where
  "opt_str v = (case v of None \<Rightarrow> CNone | Some s \<Rightarrow> CStr s)"

definition cookie_getattr :: "cookie \<Rightarrow> string \<Rightarrow> cval" where
  \<comment> \<open>\<open>getattr(cookie, i, None)\<close>; a cookie object has no attribute \<open>max-age\<close>\<close>
  "cookie_getattr c i =
     (if i = ''domain'' then opt_str (domain c)
      else if i = ''expires'' then (case expires c of None \<Rightarrow> CNone | Some n \<Rightarrow> CInt n)
      else if i = ''httponly'' then (case httponly c of None \<Rightarrow> CNone | Some b \<Rightarrow> CBool b)
      else if i = ''path'' then opt_str (path c)
      else if i = ''port'' then opt_str (port c)
      else if i = ''secure'' then CBool (secure c)
      else CNone)"

type_synonym cookie_jar = "(string \<times> (string \<times> cval) list) list"

definition cookie_entry :: "cookie \<Rightarrow> (string \<times> cval) list" where
  \<comment> \<open>the dictionary comprehension of lines 142 and 143, over seven distinct keys\<close>
  "cookie_entry c =
     map (\<lambda>i. (i, cookie_getattr c i))
         [''domain'', ''expires'', ''httponly'', ''max-age'', ''path'', ''port'', ''secure'']"

definition cval_repr_len :: "cval \<Rightarrow> int" where
  "cval_repr_len v =
     (case v of CNone \<Rightarrow> 4
      | CBool b \<Rightarrow> (if b then 4 else 5)
      | CInt n \<Rightarrow> py_repr_int_len n
      | CStr s \<Rightarrow> py_repr_str_len s)"

definition jar_repr_len :: "cookie_jar \<Rightarrow> int" where
  \<comment> \<open>\<open>len(str(jar))\<close>\<close>
  "jar_repr_len jar =
     py_repr_seq_len
       (map (\<lambda>kv. py_repr_str_len (fst kv) + 2 +
                   py_repr_seq_len
                     (map (\<lambda>av. py_repr_str_len (fst av) + 2 + cval_repr_len (snd av)) (snd kv)))
            jar)"

definition cookie_httponly :: "cookie \<Rightarrow> exn + cookie" where
  \<comment> \<open>lines 135 to 139: the attribute is stored on the cookie object itself\<close>
  "cookie_httponly c =
     (case httponly c of
        Some b \<Rightarrow> Inr c
      | None \<Rightarrow>
          (case rest c of
             None \<Rightarrow> Inl AttributeError
           | Some keys \<Rightarrow> Inr (c\<lparr>httponly := Some (''httponly'' \<in> set (map py_lower keys))\<rparr>)))"

definition cookie_result :: "bool \<Rightarrow> cookie \<Rightarrow> string option \<Rightarrow> string option" where
  \<comment> \<open>lines 146 to 174: the three independent checks on one cookie\<close>
  "cookie_result hsts c res =
     (let sessionid = (py_contains ''login'' (py_lower (name c)) \<or>
                       py_contains ''sess'' (py_lower (name c)));
          r1 = (if \<not> secure c \<and> hsts
                then Some (only_if_worse ''cookies-without-secure-flag-but-protected-by-hsts'' res goodness)
                else if \<not> secure c
                then Some (only_if_worse ''cookies-without-secure-flag'' res goodness)
                else res);
          r2 = (if sessionid \<and> \<not> secure c \<and> hsts
                then Some (only_if_worse ''cookies-session-without-secure-flag-but-protected-by-hsts'' r1 goodness)
                else if sessionid \<and> \<not> secure c
                then Some (only_if_worse ''cookies-session-without-secure-flag'' r1 goodness)
                else r1)
      in if sessionid \<and> httponly c \<noteq> Some True
         then Some (only_if_worse ''cookies-session-without-httponly-flag'' r2 goodness)
         else r2)"

fun cookies_loop :: "bool \<Rightarrow> cookie list \<Rightarrow> string option \<Rightarrow> cookie_jar
                      \<Rightarrow> exn + (string option \<times> cookie_jar \<times> cookie list)" where
  \<comment> \<open>\<open>for cookie in session.cookies\<close>: the result so far, the jar, and the cookies as
      the loop leaves them\<close>
  "cookies_loop hsts [] res jar = Inr (res, jar, [])"
| "cookies_loop hsts (c # cs) res jar =
     (case cookie_httponly c of
        Inl e \<Rightarrow> Inl e
      | Inr c' \<Rightarrow>
          (case cookies_loop hsts cs (cookie_result hsts c' res)
                  (dict_set (name c') (cookie_entry c') jar) of
             Inl e \<Rightarrow> Inl e
           | Inr (r, j, cs') \<Rightarrow> Inr (r, j, c' # cs')))"

definition cookies :: "(string \<Rightarrow> bool) \<Rightarrow> reqs \<Rightarrow> string \<Rightarrow> exn + (cookie_jar verdict \<times> reqs)" where
  \<comment> \<open>returns the verdict and the bundle as the call leaves it\<close>
  "cookies is_hsts_preloaded rq expect =
     (let output0 = \<lparr>data = None, expectation = expect, pass = False, result = None\<rparr>;
          hsts = pass (strict_transport_security is_hsts_preloaded rq hsts_default_expectation);
          finish = (\<lambda>out. if result out \<in> {Some ''cookies-not-found'', Some expect}
                          then out\<lparr>pass := True\<rparr> else out)
      in if session_cookies rq = []
         then Inr (finish (output0\<lparr>result := Some ''cookies-not-found''\<rparr>), rq)
         else (case cookies_loop hsts (session_cookies rq) None [] of
                 Inl e \<Rightarrow> Inl e
               | Inr (res, jar, cs') \<Rightarrow>
                   let output1 = output0\<lparr>data := Some (if jar_repr_len jar < 32768 then jar else []),
                                         result := res\<rparr>;
                       output2 = (if \<not> py_truthy_str (result output1)
                                  then output1\<lparr>result := Some ''cookies-secure-with-httponly-sessions''\<rparr>
                                  else output1)
                   in Inr (finish output2, rq\<lparr>session_cookies := cs'\<rparr>)))"

section \<open>Folding a sequence of outcomes, and the inputs used below\<close>

definition merge_all :: "string list \<Rightarrow> string option" where
  \<comment> \<open>the outcomes folded through \<^const>\<open>only_if_worse\<close> from an empty accumulator,
      as the loop of \<open>cookies\<close> does with \<open>output['result']\<close>\<close>
  "merge_all xs = fold (\<lambda>x acc. Some (only_if_worse x acc goodness)) xs None"

definition cookie_contract :: "cookie \<Rightarrow> bool" where
  \<comment> \<open>the cookie has an attribute \<open>httponly\<close> or an attribute \<open>_rest\<close>\<close>
  "cookie_contract c =
     (case httponly c of
        Some b \<Rightarrow> True
      | None \<Rightarrow> (case rest c of Some keys \<Rightarrow> True | None \<Rightarrow> False))"

definition example_response :: "(string \<times> string) list \<Rightarrow> response" where
  "example_response hs =
     \<lparr>url_scheme = ''https'', url_netloc = ''example.com'', headers = hs\<rparr>"

definition example_reqs :: "(string \<times> string) list \<Rightarrow> cookie list \<Rightarrow> reqs" where
  \<comment> \<open>one https response, seen by both variants, with these headers and cookies\<close>
  "example_reqs hs cs =
     \<lparr>responses_auto = example_response hs,
      responses_https = Some (example_response hs),
      session_cookies = cs\<rparr>"

definition no_preload :: "string \<Rightarrow> bool" where
  \<comment> \<open>an empty preload list\<close>
  "no_preload host = False"

definition example_cookie :: cookie where
  \<comment> \<open>a session cookie without \<open>Secure\<close>, its \<open>HttpOnly\<close> still in \<open>_rest\<close>\<close>
  "example_cookie =
     \<lparr>name = ''SessionId'', domain = Some ''example.com'', expires = Some 12345,
      path = Some ''/'', port = None, secure = False, httponly = None,
      rest = Some [''HttpOnly'']\<rparr>"

section \<open>The HSTS verdict on a header that is there\<close>

lemma hsts_item_typo: "hsts_item_truthy out ''includeubdomains'' = Inl KeyError"
  by (simp add: hsts_item_truthy_def)

lemma sts_try_raises: "\<exists>e out'. sts_try d out = (Some e, out')"
  by (simp add: sts_try_def hsts_item_typo Let_def split: prod.splits option.splits sum.splits)

lemma hsts_header_always_invalid:
  assumes "responses_https rq = Some r"
    and "header_get r ''Strict-Transport-Security'' = Some h"
    and "\<not> P (url_netloc r)"
  shows "result (strict_transport_security P rq e) = Some ''hsts-header-invalid''"
proof -
  obtain x out' where
    "sts_try (take 1024 h)
       \<lparr>data = Some (take 1024 h), expectation = e, pass = False,
        result = Some ''hsts-not-implemented'', includeSubDomains = None, max_age = None,
        preload = None, preloaded = False\<rparr> = (Some x, out')"
    using sts_try_raises by blast
  with assms show ?thesis by (simp add: strict_transport_security_def Let_def)
qed

text \<open>
  Claim C1. A header \<open>max-age=15552000\<close> on an https response whose host is not
  preloaded should give \<open>hsts-implemented-max-age-at-least-six-months\<close>, and
  \<open>max-age=15551999\<close> should give \<open>hsts-implemented-max-age-less-than-six-months\<close>.
  The code parses both values, and then gives \<open>hsts-header-invalid\<close> for both: the
  subscript \<open>output['includeubdomains']\<close> at line 252 names no key of \<open>output\<close>, and
  the \<open>KeyError\<close> it raises is caught by the handler of line 257.
\<close>

theorem hsts_six_months_boundary_invalid:
  "result (strict_transport_security no_preload
             (example_reqs [(''strict-transport-security'', ''max-age=15552000'')] [])
             hsts_default_expectation) = Some ''hsts-header-invalid''
   \<and> max_age (strict_transport_security no_preload
             (example_reqs [(''strict-transport-security'', ''max-age=15552000'')] [])
             hsts_default_expectation) = Some 15552000
   \<and> result (strict_transport_security no_preload
             (example_reqs [(''strict-transport-security'', ''max-age=15551999'')] [])
             hsts_default_expectation) = Some ''hsts-header-invalid''
   \<and> max_age (strict_transport_security no_preload
             (example_reqs [(''strict-transport-security'', ''max-age=15551999'')] [])
             hsts_default_expectation) = Some 15551999"
  by code_simp

section \<open>Dictionaries, and the values of a parsed policy\<close>

lemma map_of_dict_set: "map_of (dict_set k v d) = (map_of d)(k \<mapsto> v)"
  by (induction d) (auto simp: fun_eq_iff)

lemma keys_dict_set: "fst ` set (dict_set k v d) = insert k (fst ` set d)"
  by (induction d) auto

lemma csp_entry_value: "csp_entry directive = Inr kv \<Longrightarrow> snd kv \<noteq> VNone"
  by (cases directive rule: csp_entry.cases) auto

lemma csp_build_no_none:
  "csp_build ds acc = Inr d \<Longrightarrow> (\<And>k. map_of acc k \<noteq> Some VNone) \<Longrightarrow> map_of d k \<noteq> Some VNone"
proof (induction ds arbitrary: acc)
  case Nil
  then show ?case by simp
next
  case (Cons directive ds)
  from Cons.prems(1) obtain kv where kv: "csp_entry directive = Inr kv"
    and rec: "csp_build ds (dict_set (fst kv) (snd kv) acc) = Inr d"
    by (auto split: sum.splits)
  have "\<And>k. map_of (dict_set (fst kv) (snd kv) acc) k \<noteq> Some VNone"
    using Cons.prems(2) csp_entry_value [OF kv] by (simp add: map_of_dict_set)
  with Cons.IH [OF rec] show ?case by blast
qed

lemma csp_parse_no_none: "csp_parse h = Inr parsed \<Longrightarrow> map_of parsed k \<noteq> Some VNone"
  unfolding csp_parse_def by (erule csp_build_no_none) simp

lemma map_of_csp_replicate:
  "map_of (csp_replicate csp) =
     (let d = (case map_of csp ''default-src'' of None \<Rightarrow> VStr [] | Some v \<Rightarrow> v);
          sc = (case map_of csp ''script-src'' of None \<Rightarrow> d | Some v \<Rightarrow> v);
          st = (case map_of csp ''style-src'' of None \<Rightarrow> d | Some v \<Rightarrow> v)
      in (map_of csp)(''default-src'' \<mapsto> d, ''script-src'' \<mapsto> sc, ''style-src'' \<mapsto> st))"
  by (simp add: csp_replicate_def map_of_dict_set dict_has_def csp_get_def Let_def
           split: option.splits)

lemma csp_replicate_values:
  assumes "\<And>k. map_of csp k \<noteq> Some VNone"
  shows "csp_get (csp_replicate csp) ''script-src'' \<noteq> VNone"
    and "csp_get (csp_replicate csp) ''style-src'' \<noteq> VNone"
  using assms by (auto simp: csp_get_def map_of_csp_replicate Let_def split: option.splits)

lemma csp_tests_returns:
  assumes "csp_get csp ''script-src'' \<noteq> VNone" and "csp_get csp ''style-src'' \<noteq> VNone"
  shows "\<exists>res. csp_tests scheme csp = Inr res"
  using assms
  by (cases "csp_get csp ''script-src''"; cases "csp_get csp ''style-src''")
     (simp_all add: csp_tests_def val_contains_def split: bool.splits)

lemma csp_returns:
  "\<exists>v. content_security_policy rq e = Inr v \<and> result v \<noteq> None \<and> expectation v = e"
proof (cases "header_get (responses_auto rq) ''Content-Security-Policy''")
  case None
  then show ?thesis by (simp add: content_security_policy_def expect_pass_def Let_def)
next
  case (Some h)
  show ?thesis
  proof (cases "csp_parse h")
    case (Inl e')
    with Some show ?thesis by (simp add: content_security_policy_def Let_def)
  next
    case (Inr parsed)
    have "\<And>k. map_of parsed k \<noteq> Some VNone" using csp_parse_no_none [OF Inr] .
    from csp_replicate_values [OF this]
    obtain res where "csp_tests (url_scheme (responses_auto rq)) (csp_replicate parsed) = Inr res"
      using csp_tests_returns by blast
    with Some Inr show ?thesis
      by (simp add: content_security_policy_def expect_pass_def Let_def)
  qed
qed

section \<open>Every analyzer sets a result\<close>

lemma x_content_type_options_result:
  "result (x_content_type_options rq e) \<noteq> None \<and> expectation (x_content_type_options rq e) = e"
  by (simp add: x_content_type_options_def expect_pass_def Let_def split: option.splits)

lemma x_frame_options_returns:
  "\<exists>v. x_frame_options rq e = Inr v \<and> result v \<noteq> None \<and> expectation v = e"
proof -
  obtain csp where "content_security_policy rq csp_default_expectation = Inr csp"
    using csp_returns by blast
  then show ?thesis
    by (simp add: x_frame_options_def Let_def split: option.splits)
qed

lemma x_xss_protection_returns:
  "\<exists>v. x_xss_protection rq e = Inr v \<and> result v \<noteq> None \<and> expectation v = e"
proof -
  obtain csp where "content_security_policy rq csp_default_expectation = Inr csp"
    using csp_returns by blast
  then show ?thesis
    by (auto simp add: x_xss_protection_def Let_def simp del: py_contains.simps
             split: option.splits sum.splits prod.splits)
qed

lemma sts_parameters_keeps:
  "sts_parameters ps out = (x, out') \<Longrightarrow> result out' = result out \<and> expectation out' = expectation out"
  by (induction ps out rule: sts_parameters.induct) (auto split: if_splits option.splits)

lemma sts_try_keeps:
  "sts_try d out = (x, out') \<Longrightarrow> result out \<noteq> None \<Longrightarrow> result out' \<noteq> None \<and> expectation out' = expectation out"
  by (auto simp: sts_try_def Let_def hsts_item_typo split: prod.splits option.splits sum.splits if_splits
      dest: sts_parameters_keeps)

lemma strict_transport_security_result:
  "result (strict_transport_security P rq e) \<noteq> None \<and> expectation (strict_transport_security P rq e) = e"
  by (auto simp: strict_transport_security_def Let_def split: option.splits prod.splits dest: sts_try_keeps)

section \<open>The loop over the cookies\<close>

lemma cookie_httponly_contract:
  "cookie_contract c \<Longrightarrow> \<exists>c'. cookie_httponly c = Inr c'"
  by (auto simp: cookie_contract_def cookie_httponly_def split: option.splits)

lemma cookie_httponly_again:
  "cookie_httponly c = Inr c' \<Longrightarrow> cookie_httponly c' = Inr c'"
  by (auto simp: cookie_httponly_def split: option.splits)

lemma cookies_loop_contract:
  "list_all cookie_contract cs \<Longrightarrow> \<exists>r j cs'. cookies_loop hsts cs res jar = Inr (r, j, cs')"
proof (induction cs arbitrary: res jar)
  case Nil
  then show ?case by simp
next
  case (Cons c cs)
  from Cons.prems have "cookie_contract c" by simp
  from cookie_httponly_contract [OF this]
  obtain c' where c': "cookie_httponly c = Inr c'" by blast
  from Cons.prems have "list_all cookie_contract cs" by simp
  from Cons.IH [OF this] obtain r j cs' where
    "cookies_loop hsts cs (cookie_result hsts c' res) (dict_set (name c') (cookie_entry c') jar)
       = Inr (r, j, cs')"
    by blast
  with c' show ?case by simp
qed

lemma cookies_loop_again:
  "cookies_loop hsts cs res jar = Inr (r, j, cs') \<Longrightarrow> cookies_loop hsts cs' res jar = Inr (r, j, cs')"
proof (induction cs arbitrary: res jar r j cs')
  case Nil
  then show ?case by simp
next
  case (Cons c cs)
  from Cons.prems obtain c' r1 j1 cs1 where c': "cookie_httponly c = Inr c'"
    and rec: "cookies_loop hsts cs (cookie_result hsts c' res)
                (dict_set (name c') (cookie_entry c') jar) = Inr (r1, j1, cs1)"
    and eq: "r = r1" "j = j1" "cs' = c' # cs1"
    by (auto split: sum.splits)
  from Cons.IH [OF rec] cookie_httponly_again [OF c'] eq show ?case by simp
qed

lemma cookies_loop_empty:
  "cookies_loop hsts cs res jar = Inr (r, j, cs') \<Longrightarrow> (cs' = []) = (cs = [])"
  by (cases cs) (auto split: sum.splits)

lemma hsts_ignores_cookies:
  "strict_transport_security P (rq\<lparr>session_cookies := cs\<rparr>) e = strict_transport_security P rq e"
  by (simp add: strict_transport_security_def)

lemma csp_ignores_cookies:
  "content_security_policy (rq\<lparr>session_cookies := cs\<rparr>) e = content_security_policy rq e"
  by (simp add: content_security_policy_def)

lemma cookies_leaves_responses:
  "cookies P rq e = Inr (v, rq') \<Longrightarrow> \<exists>cs. rq' = rq\<lparr>session_cookies := cs\<rparr>"
proof (cases "session_cookies rq = []")
  case True
  assume "cookies P rq e = Inr (v, rq')"
  with True have "rq' = rq" by (auto simp: cookies_def Let_def)
  then have "rq' = rq\<lparr>session_cookies := session_cookies rq\<rparr>" by simp
  then show ?thesis by blast
next
  case False
  assume "cookies P rq e = Inr (v, rq')"
  with False show ?thesis
    by (auto simp: cookies_def Let_def split: sum.splits prod.splits)
qed

lemma cookies_again:
  assumes "cookies P rq e = Inr (v, rq')"
  shows "cookies P rq' e = Inr (v, rq')"
proof (cases "session_cookies rq = []")
  case True
  with assms show ?thesis by (auto simp: cookies_def Let_def)
next
  case False
  with assms obtain r j cs' where
    loop: "cookies_loop (pass (strict_transport_security P rq hsts_default_expectation))
             (session_cookies rq) None [] = Inr (r, j, cs')"
    and rq': "rq' = rq\<lparr>session_cookies := cs'\<rparr>"
    by (auto simp: cookies_def Let_def split: sum.splits prod.splits)
  have ne: "cs' \<noteq> []" using cookies_loop_empty [OF loop] False by simp
  from assms False loop rq' ne cookies_loop_again [OF loop] show ?thesis
    by (simp add: cookies_def Let_def hsts_ignores_cookies)
qed

lemma cookies_returns:
  assumes "list_all cookie_contract (session_cookies rq)"
  shows "\<exists>v rq'. cookies P rq e = Inr (v, rq') \<and> result v \<noteq> None \<and> expectation v = e"
proof -
  obtain r j cs' where
    "cookies_loop (pass (strict_transport_security P rq hsts_default_expectation))
             (session_cookies rq) None [] = Inr (r, j, cs')"
    using cookies_loop_contract [OF assms] by blast
  then show ?thesis
    by (auto simp: cookies_def Let_def py_truthy_str_def split: option.splits)
qed

section \<open>Folding outcomes through the merge\<close>

lemma rank_inj: "x \<in> set l \<Longrightarrow> rank l x = rank l y \<Longrightarrow> x = y"
  by (induction l) (auto split: if_splits)

lemma fold_worse_Some:
  "\<exists>w. fold (\<lambda>x acc. Some (only_if_worse x acc order)) xs (Some a) = Some w
       \<and> w \<in> insert a (set xs)
       \<and> (\<forall>x \<in> insert a (set xs). rank order x \<le> rank order w)"
proof (induction xs arbitrary: a)
  case Nil
  show ?case by simp
next
  case (Cons x xs)
  let ?b = "only_if_worse x (Some a) order"
  from Cons [of ?b] obtain w where
    w: "fold (\<lambda>x acc. Some (only_if_worse x acc order)) xs (Some ?b) = Some w"
    and mem: "w \<in> insert ?b (set xs)"
    and top: "\<forall>y \<in> insert ?b (set xs). rank order y \<le> rank order w"
    by blast
  have b: "?b = (if rank order a < rank order x then x else a)"
    by (simp add: only_if_worse_def)
  from mem b have "w \<in> insert a (set (x # xs))" by (auto split: if_splits)
  moreover from top b have "\<forall>y \<in> insert a (set (x # xs)). rank order y \<le> rank order w"
    by (auto split: if_splits)
  ultimately show ?case using w by simp
qed

lemma merge_all_worst:
  assumes "xs \<noteq> []"
  shows "\<exists>w. merge_all xs = Some w \<and> w \<in> set xs
            \<and> (\<forall>x \<in> set xs. rank goodness x \<le> rank goodness w)"
proof -
  from assms obtain x xs' where xs: "xs = x # xs'" by (cases xs) auto
  have "merge_all xs = fold (\<lambda>x acc. Some (only_if_worse x acc goodness)) xs' (Some x)"
    by (simp add: merge_all_def xs only_if_worse_def)
  with fold_worse_Some [of goodness xs' x] xs show ?thesis by auto
qed

lemma merge_all_permutation:
  assumes "set xs \<subseteq> set goodness" and "mset ys = mset xs"
  shows "merge_all ys = merge_all xs"
proof (cases "xs = []")
  case True
  with assms show ?thesis by simp
next
  case False
  from assms(2) have sets: "set ys = set xs" by (rule mset_eq_setD)
  with False have "ys \<noteq> []" by auto
  from merge_all_worst [OF False] obtain w where
    w: "merge_all xs = Some w" "w \<in> set xs" "\<forall>x \<in> set xs. rank goodness x \<le> rank goodness w"
    by blast
  from merge_all_worst [OF \<open>ys \<noteq> []\<close>] obtain u where
    u: "merge_all ys = Some u" "u \<in> set ys" "\<forall>x \<in> set ys. rank goodness x \<le> rank goodness u"
    by blast
  from w u sets have "rank goodness w = rank goodness u" by (simp add: order_antisym)
  moreover from w(2) assms(1) have "w \<in> set goodness" by blast
  ultimately have "w = u" by (rule rank_inj [rotated])
  with w u show ?thesis by simp
qed

section \<open>The attribute dictionary of X-XSS-Protection\<close>

lemma py_split_two:
  "sep \<in> set s \<Longrightarrow> \<exists>a b bs. py_split sep s = a # b # bs"
proof (induction s)
  case Nil
  then show ?case by simp
next
  case (Cons c cs)
  show ?case
  proof (cases "c = sep")
    case True
    then show ?thesis by (cases cs) (auto split: list.splits)
  next
    case False
    with Cons show ?thesis by (auto split: list.splits)
  qed
qed

lemma py_split_not_Nil: "py_split sep s \<noteq> []"
  by (induction s) (auto split: list.splits)

lemma xxssp_item_returns: "\<exists>kv. xxssp_item d = Inr kv"
proof (cases "CHR ''='' \<in> set d")
  case True
  from py_split_two [OF this] show ?thesis by auto
next
  case False
  then show ?thesis using py_split_not_Nil [of "CHR ''=''" d] by (auto split: list.splits)
qed

lemma xxssp_build_returns: "\<exists>attrs. xxssp_build ds acc = Inr attrs"
proof (induction ds arbitrary: acc)
  case Nil
  show ?case by simp
next
  case (Cons d ds)
  obtain kv where "xxssp_item d = Inr kv" using xxssp_item_returns by blast
  with Cons show ?case by (simp del: xxssp_item.simps)
qed

lemma xxssp_parse_first:
  "\<exists>attrs. xxssp_parse (c # h) =
     (if c \<in> {CHR ''0'', CHR ''1''} then Inr (c = CHR ''1'', attrs) else Inl ValueError)"
proof -
  obtain attrs where "xxssp_build (py_split CHR '';'' (c # h)) [] = Inr attrs"
    using xxssp_build_returns by blast
  then show ?thesis by (auto simp add: xxssp_parse_def simp del: py_split.simps)
qed

section \<open>Claims settled by running the analyzers\<close>

text \<open>
  Claim C2. For a header that is there and parses, the \<open>includeSubDomains\<close> and
  \<open>preload\<close> fields should be false when their token is absent and true when it is
  present. The two stores of \<open>False\<close> (lines 252 to 255) come after the subscript that
  raises \<open>KeyError\<close>, so they never run: an absent token leaves its field \<open>None\<close>.
  Here \<open>max-age=31536000\<close> leaves both \<open>None\<close>, and
  \<open>max-age=31536000; includeSubDomains\<close> sets the first and leaves \<open>preload\<close>
  \<open>None\<close>.
\<close>

theorem hsts_flags_stay_unset:
  "includeSubDomains (strict_transport_security no_preload
       (example_reqs [(''strict-transport-security'', ''max-age=31536000'')] [])
       hsts_default_expectation) = None
   \<and> preload (strict_transport_security no_preload
       (example_reqs [(''strict-transport-security'', ''max-age=31536000'')] [])
       hsts_default_expectation) = None
   \<and> includeSubDomains (strict_transport_security no_preload
       (example_reqs [(''strict-transport-security'', ''max-age=31536000; includeSubDomains'')] [])
       hsts_default_expectation) = Some True
   \<and> preload (strict_transport_security no_preload
       (example_reqs [(''strict-transport-security'', ''max-age=31536000; includeSubDomains'')] [])
       hsts_default_expectation) = None"
  by code_simp

text \<open>
  Claim C3. On an https response, a policy with \<open>http:\<close> among its source expressions
  (no \<open>'unsafe-inline'\<close> for scripts, a non-empty \<open>default-src\<close>) should give
  \<open>csp-implemented-with-insecure-scheme\<close>. Line 65 tests \<open>'http:' in output['data']\<close>
  on the dictionary, that is among the directive names, so the policy
  \<open>default-src http://example.com\<close> falls through to \<open>csp-implemented-with-no-unsafe\<close>
  and passes the default expectation.
\<close>

theorem csp_http_source_not_flagged:
  "content_security_policy
     (example_reqs [(''content-security-policy'', ''default-src http://example.com'')] [])
     csp_default_expectation
   = Inr \<lparr>data = Some [(''default-src'', VList [''http://example.com'']),
                         (''script-src'', VList [''http://example.com'']),
                         (''style-src'', VList [''http://example.com''])],
           expectation = ''csp-implemented-with-no-unsafe'', pass = True,
           result = Some ''csp-implemented-with-no-unsafe''\<rparr>"
  by code_simp

text \<open>
  Claim C4. A policy that reaches the fourth test and has the token \<open>'unsafe-eval'\<close>
  among its source expressions should give \<open>csp-implemented-with-unsafe-eval\<close>. Line 67
  tests membership among the directive names as well, so
  \<open>default-src https://example.com 'unsafe-eval'\<close> gives
  \<open>csp-implemented-with-no-unsafe\<close>.
\<close>

theorem csp_unsafe_eval_not_flagged:
  "csp_parse (''default-src https://example.com '' @ unsafe_eval)
     = Inr [(''default-src'', VList [''https://example.com'', unsafe_eval])]
   \<and> map_sum id result
       (content_security_policy
          (example_reqs [(''content-security-policy'',
                          ''default-src https://example.com '' @ unsafe_eval)] [])
          csp_default_expectation)
     = Inr (Some ''csp-implemented-with-no-unsafe'')"
  by code_simp

section \<open>What the policy analyzer stores as data\<close>

lemma keys_csp_replicate:
  "fst ` set (csp_replicate csp) = fst ` set csp \<union> {''default-src'', ''script-src'', ''style-src''}"
  by (simp add: csp_replicate_def keys_dict_set Let_def) blast

text \<open>
  Claim C5, as stated: the \<open>data\<close> of the verdict holds exactly the directives of the
  header, and the \<open>default-src\<close> fallback is never stored into it. It fails: the
  dictionary bound to \<open>output['data']\<close> at line 50 is the dictionary \<open>csp\<close> that lines
  56 to 58 store into. For the header \<open>default-src https://example.com\<close> the parsed
  policy has one directive and the returned data has three.
\<close>

theorem csp_data_counterexample:
  "csp_parse ''default-src https://example.com''
     = Inr [(''default-src'', VList [''https://example.com''])]
   \<and> map_sum id data
       (content_security_policy
          (example_reqs [(''content-security-policy'', ''default-src https://example.com'')] [])
          csp_default_expectation)
     = Inr (Some [(''default-src'', VList [''https://example.com'']),
                  (''script-src'', VList [''https://example.com'']),
                  (''style-src'', VList [''https://example.com''])])"
  by code_simp

text \<open>
  Claim C5, amended. For every header that parses, the returned \<open>data\<close> is the parsed
  policy after lines 56 to 58 have stored into it, or the empty dictionary when its
  printed form has 32768 characters or more. Its keys are the directive names of the
  header together with \<open>default-src\<close>, \<open>script-src\<close> and \<open>style-src\<close>;
  \<open>default-src\<close> holds its own value, or the empty string when the header has none;
  \<open>script-src\<close> and \<open>style-src\<close> hold their own value when the header has one, and
  the stored value of \<open>default-src\<close> otherwise; every other directive is as the header
  gave it.
\<close>

theorem csp_data_holds_replicated_policy:
  assumes "header_get (responses_auto rq) ''Content-Security-Policy'' = Some h"
    and "csp_parse h = Inr parsed"
  shows "\<exists>v. content_security_policy rq e = Inr v
           \<and> data v = Some (if csp_repr_len (csp_replicate parsed) < 32768
                            then csp_replicate parsed else [])
           \<and> fst ` set (csp_replicate parsed)
               = fst ` set parsed \<union> {''default-src'', ''script-src'', ''style-src''}
           \<and> csp_get (csp_replicate parsed) ''default-src''
               = (if dict_has parsed ''default-src'' then csp_get parsed ''default-src''
                  else VStr [])
           \<and> csp_get (csp_replicate parsed) ''script-src''
               = (if dict_has parsed ''script-src'' then csp_get parsed ''script-src''
                  else csp_get (csp_replicate parsed) ''default-src'')
           \<and> csp_get (csp_replicate parsed) ''style-src''
               = (if dict_has parsed ''style-src'' then csp_get parsed ''style-src''
                  else csp_get (csp_replicate parsed) ''default-src'')
           \<and> (\<forall>k. k \<notin> {''default-src'', ''script-src'', ''style-src''}
                  \<longrightarrow> map_of (csp_replicate parsed) k = map_of parsed k)"
proof -
  have "\<And>k. map_of parsed k \<noteq> Some VNone" using csp_parse_no_none [OF assms(2)] .
  from csp_replicate_values [OF this]
  obtain res where "csp_tests (url_scheme (responses_auto rq)) (csp_replicate parsed) = Inr res"
    using csp_tests_returns by blast
  with assms have
    "\<exists>v. content_security_policy rq e = Inr v
       \<and> data v = Some (if csp_repr_len (csp_replicate parsed) < 32768
                         then csp_replicate parsed else [])"
    by (simp add: content_security_policy_def expect_pass_def Let_def)
  moreover have "csp_get (csp_replicate parsed) ''default-src''
               = (if dict_has parsed ''default-src'' then csp_get parsed ''default-src''
                  else VStr [])"
    by (simp add: csp_get_def map_of_csp_replicate dict_has_def Let_def split: option.splits)
  moreover have "csp_get (csp_replicate parsed) ''script-src''
               = (if dict_has parsed ''script-src'' then csp_get parsed ''script-src''
                  else csp_get (csp_replicate parsed) ''default-src'')"
    by (simp add: csp_get_def map_of_csp_replicate dict_has_def Let_def split: option.splits)
  moreover have "csp_get (csp_replicate parsed) ''style-src''
               = (if dict_has parsed ''style-src'' then csp_get parsed ''style-src''
                  else csp_get (csp_replicate parsed) ''default-src'')"
    by (simp add: csp_get_def map_of_csp_replicate dict_has_def Let_def split: option.splits)
  moreover have "\<forall>k. k \<notin> {''default-src'', ''script-src'', ''style-src''}
                  \<longrightarrow> map_of (csp_replicate parsed) k = map_of parsed k"
    by (simp add: map_of_csp_replicate Let_def)
  ultimately show ?thesis using keys_csp_replicate [of parsed] by blast
qed

theorem csp_data_holds_replicated_policy_witness:
  "\<exists>v. content_security_policy
          (example_reqs [(''content-security-policy'', ''script-src https://example.com'')] [])
          ''csp-implemented-with-no-unsafe'' = Inr v
       \<and> data v = Some [(''script-src'', VList [''https://example.com'']),
                        (''default-src'', VStr []),
                        (''style-src'', VStr [])]"
proof -
  have h: "header_get (responses_auto
             (example_reqs [(''content-security-policy'', ''script-src https://example.com'')] []))
             ''Content-Security-Policy'' = Some ''script-src https://example.com''"
    by code_simp
  have p: "csp_parse ''script-src https://example.com''
             = Inr [(''script-src'', VList [''https://example.com''])]"
    by code_simp
  have r: "csp_replicate [(''script-src'', VList [''https://example.com''])]
             = [(''script-src'', VList [''https://example.com'']),
                (''default-src'', VStr []), (''style-src'', VStr [])]"
    by code_simp
  have l: "csp_repr_len [(''script-src'', VList [''https://example.com'']),
                (''default-src'', VStr []), (''style-src'', VStr [])] < 32768"
    by code_simp
  from csp_data_holds_replicated_policy [OF h p, of "''csp-implemented-with-no-unsafe''"]
  show ?thesis by (simp only: r l if_True) blast
qed

section \<open>Verdicts are returned, not exceptions\<close>

text \<open>
  Claim C6. For every bundle in which each cookie has an attribute \<open>httponly\<close> or an
  attribute \<open>_rest\<close>, every one of the six analyzers returns a verdict (no exception
  reaches the caller) whose \<open>result\<close> is not \<open>None\<close> and whose \<open>expectation\<close> is the
  one it was given; \<open>data\<close> and \<open>pass\<close> are fields of every verdict. The preload
  list is any total function.
\<close>

theorem analyzers_return_verdicts:
  assumes "list_all cookie_contract (session_cookies rq)"
  shows "(\<exists>v. content_security_policy rq e = Inr v \<and> result v \<noteq> None \<and> expectation v = e)
       \<and> (\<exists>v rq'. cookies P rq e = Inr (v, rq') \<and> result v \<noteq> None \<and> expectation v = e)
       \<and> result (strict_transport_security P rq e) \<noteq> None
       \<and> expectation (strict_transport_security P rq e) = e
       \<and> result (x_content_type_options rq e) \<noteq> None
       \<and> expectation (x_content_type_options rq e) = e
       \<and> (\<exists>v. x_frame_options rq e = Inr v \<and> result v \<noteq> None \<and> expectation v = e)
       \<and> (\<exists>v. x_xss_protection rq e = Inr v \<and> result v \<noteq> None \<and> expectation v = e)"
  using csp_returns [of rq e] cookies_returns [OF assms, of P e]
    strict_transport_security_result [of P rq e] x_content_type_options_result [of rq e]
    x_frame_options_returns [of rq e] x_xss_protection_returns [of rq e]
  by simp

text \<open>The theorem at a bundle with an unparsable X-XSS-Protection header and one cookie.\<close>

theorem analyzers_return_verdicts_witness:
  "(\<exists>v. content_security_policy (example_reqs [(''x-xss-protection'', ''junk'')] [example_cookie])
           ''anything'' = Inr v \<and> result v \<noteq> None \<and> expectation v = ''anything'')
   \<and> (\<exists>v rq'. cookies no_preload (example_reqs [(''x-xss-protection'', ''junk'')] [example_cookie])
           ''anything'' = Inr (v, rq') \<and> result v \<noteq> None \<and> expectation v = ''anything'')
   \<and> (\<exists>v. x_xss_protection (example_reqs [(''x-xss-protection'', ''junk'')] [example_cookie])
           ''anything'' = Inr v \<and> result v \<noteq> None \<and> expectation v = ''anything'')"
proof -
  have c: "list_all cookie_contract
             (session_cookies (example_reqs [(''x-xss-protection'', ''junk'')] [example_cookie]))"
    by code_simp
  from analyzers_return_verdicts [OF c, of "''anything''" no_preload] show ?thesis by blast
qed

section \<open>The fallback of x_xss_protection to the policy analyzer\<close>

lemma enabled_not_in_disabled:
  "\<not> py_contains ''enabled'' ''x-xss-protection-disabled''"
  "\<not> py_contains ''enabled'' ''x-xss-protection-not-implemented''"
  by code_simp+

text \<open>
  Claim C7, as stated: whenever the verdict of \<open>x_xss_protection\<close> is not passing,
  unparsable headers included, a passing policy verdict overrides it. It fails for the
  unparsable header: the handler of lines 407 to 409 returns at once. With the header
  \<open>2\<close> and a policy that passes, the verdict stays \<open>x-xss-protection-header-invalid\<close>
  and does not pass.
\<close>

theorem xxssp_invalid_counterexample:
  "x_xss_protection
     (example_reqs [(''content-security-policy'', ''default-src https://example.com''),
                    (''x-xss-protection'', ''2'')] [])
     ''x-xss-protection-1-mode-block''
   = Inr \<lparr>data = Some ''2'', expectation = ''x-xss-protection-1-mode-block'', pass = False,
           result = Some ''x-xss-protection-header-invalid''\<rparr>
   \<and> map_sum id pass
       (content_security_policy
          (example_reqs [(''content-security-policy'', ''default-src https://example.com''),
                         (''x-xss-protection'', ''2'')] [])
          csp_default_expectation)
     = Inr True"
  by code_simp

text \<open>
  Claim C7, amended. Let the policy analyzer pass under its default expectation. When the
  X-XSS-Protection header is absent or empty, or starts with \<open>0\<close> (the verdicts
  \<open>not-implemented\<close> and \<open>disabled\<close>, which do not pass on their own), the verdict is
  overridden to \<open>pass = True\<close> with result \<open>x-xss-protection-not-needed-due-to-csp\<close>.
  When the header starts with anything but \<open>0\<close> or \<open>1\<close>, the analyzer returns
  \<open>x-xss-protection-header-invalid\<close> with \<open>pass = False\<close>, with no fallback.
\<close>

theorem x_xss_protection_fallback:
  assumes "content_security_policy rq csp_default_expectation = Inr csp" and "pass csp"
  shows "(header_get (responses_auto rq) ''X-XSS-Protection'' \<in> {None, Some []} \<longrightarrow>
            x_xss_protection rq e
              = Inr \<lparr>data = None, expectation = e, pass = True,
                      result = Some ''x-xss-protection-not-needed-due-to-csp''\<rparr>)
       \<and> (\<forall>h. header_get (responses_auto rq) ''X-XSS-Protection'' = Some (CHR ''0'' # h) \<longrightarrow>
            x_xss_protection rq e
              = Inr \<lparr>data = Some (take 256 (CHR ''0'' # h)), expectation = e, pass = True,
                      result = Some ''x-xss-protection-not-needed-due-to-csp''\<rparr>)
       \<and> (\<forall>c h. header_get (responses_auto rq) ''X-XSS-Protection'' = Some (c # h)
                  \<and> c \<notin> {CHR ''0'', CHR ''1''} \<longrightarrow>
            x_xss_protection rq e
              = Inr \<lparr>data = Some (take 256 (c # h)), expectation = e, pass = False,
                      result = Some ''x-xss-protection-header-invalid''\<rparr>)"
proof (intro conjI allI impI)
  assume "header_get (responses_auto rq) ''X-XSS-Protection'' \<in> {None, Some []}"
  then have "\<not> py_truthy_str (header_get (responses_auto rq) ''X-XSS-Protection'')"
    by (auto simp: py_truthy_str_def)
  with assms show "x_xss_protection rq e
              = Inr \<lparr>data = None, expectation = e, pass = True,
                      result = Some ''x-xss-protection-not-needed-due-to-csp''\<rparr>"
    by (simp add: x_xss_protection_def Let_def enabled_not_in_disabled del: py_contains.simps)
next
  fix h assume h: "header_get (responses_auto rq) ''X-XSS-Protection'' = Some (CHR ''0'' # h)"
  obtain attrs where "xxssp_parse (CHR ''0'' # h) = Inr (False, attrs)"
    using xxssp_parse_first [of "CHR ''0''" h] by auto
  with assms h show "x_xss_protection rq e
              = Inr \<lparr>data = Some (take 256 (CHR ''0'' # h)), expectation = e, pass = True,
                      result = Some ''x-xss-protection-not-needed-due-to-csp''\<rparr>"
    by (simp add: x_xss_protection_def Let_def py_truthy_str_def enabled_not_in_disabled
             del: py_contains.simps)
next
  fix c h assume "header_get (responses_auto rq) ''X-XSS-Protection'' = Some (c # h)
                  \<and> c \<notin> {CHR ''0'', CHR ''1''}"
  then have h: "header_get (responses_auto rq) ''X-XSS-Protection'' = Some (c # h)"
    and c: "c \<notin> {CHR ''0'', CHR ''1''}" by simp_all
  from c have "xxssp_parse (c # h) = Inl ValueError"
    using xxssp_parse_first [of c h] by auto
  with h show "x_xss_protection rq e
              = Inr \<lparr>data = Some (take 256 (c # h)), expectation = e, pass = False,
                      result = Some ''x-xss-protection-header-invalid''\<rparr>"
    by (simp add: x_xss_protection_def Let_def py_truthy_str_def del: py_contains.simps)
qed

text \<open>The theorem at a bundle with the header \<open>0\<close> and a policy that passes.\<close>

theorem x_xss_protection_fallback_witness:
  "x_xss_protection
     (example_reqs [(''content-security-policy'', ''default-src https://example.com''),
                    (''x-xss-protection'', ''0'')] [])
     ''x-xss-protection-1-mode-block''
   = Inr \<lparr>data = Some ''0'', expectation = ''x-xss-protection-1-mode-block'', pass = True,
           result = Some ''x-xss-protection-not-needed-due-to-csp''\<rparr>"
proof -
  let ?rq = "example_reqs [(''content-security-policy'', ''default-src https://example.com''),
                    (''x-xss-protection'', ''0'')] []"
  have csp: "content_security_policy ?rq csp_default_expectation
      = Inr \<lparr>data = Some [(''default-src'', VList [''https://example.com'']),
                         (''script-src'', VList [''https://example.com'']),
                         (''style-src'', VList [''https://example.com''])],
           expectation = ''csp-implemented-with-no-unsafe'', pass = True,
           result = Some ''csp-implemented-with-no-unsafe''\<rparr>"
    by code_simp
  have p: "pass \<lparr>data = Some [(''default-src'', VList [''https://example.com'']),
                         (''script-src'', VList [''https://example.com'']),
                         (''style-src'', VList [''https://example.com''])],
           expectation = ''csp-implemented-with-no-unsafe'', pass = True,
           result = Some ''csp-implemented-with-no-unsafe''\<rparr>"
    by simp
  have h: "header_get (responses_auto ?rq) ''X-XSS-Protection'' = Some (CHR ''0'' # [])"
    by code_simp
  have t: "take 256 ''0'' = ''0''" by simp
  from x_xss_protection_fallback [OF csp p, of "''x-xss-protection-1-mode-block''"] h
  have "x_xss_protection ?rq ''x-xss-protection-1-mode-block''
          = Inr \<lparr>data = Some (take 256 ''0''), expectation = ''x-xss-protection-1-mode-block'',
                  pass = True, result = Some ''x-xss-protection-not-needed-due-to-csp''\<rparr>"
    by blast
  then show ?thesis by (simp only: t)
qed

section \<open>The cookie analyzer\<close>

text \<open>
  Claim C8. For every bundle whose cookie jar is empty and every expectation, \<open>cookies\<close>
  returns the result \<open>cookies-not-found\<close> with \<open>pass = True\<close> (and \<open>data\<close> is
  \<open>None\<close>, the bundle is left as it was).
\<close>

theorem cookies_empty_jar:
  assumes "session_cookies rq = []"
  shows "cookies P rq e
           = Inr (\<lparr>data = None, expectation = e, pass = True, result = Some ''cookies-not-found''\<rparr>, rq)"
  using assms by (simp add: cookies_def Let_def)

text \<open>The theorem at a bundle without cookies, under the default expectation.\<close>

theorem cookies_empty_jar_witness:
  "cookies no_preload (example_reqs [] []) ''cookies-secure-with-httponly-sessions''
     = Inr (\<lparr>data = None, expectation = ''cookies-secure-with-httponly-sessions'', pass = True,
             result = Some ''cookies-not-found''\<rparr>, example_reqs [] [])"
proof -
  have "session_cookies (example_reqs [] []) = []" by (simp add: example_reqs_def)
  from cookies_empty_jar [OF this] show ?thesis .
qed

text \<open>
  Claim C9. For every sequence of outcomes drawn from the goodness order, folding them
  through \<open>only_if_worse\<close> from an empty accumulator gives nothing for the empty
  sequence and otherwise a member of the sequence that no member outranks; every
  permutation of the sequence gives the same accumulator; and a candidate of the same
  rank as the accumulator leaves the accumulator as it is.
\<close>

theorem only_if_worse_fold_worst:
  assumes "set xs \<subseteq> set goodness"
  shows "(if xs = [] then merge_all xs = None
          else \<exists>w. merge_all xs = Some w \<and> w \<in> set xs
                 \<and> list_all (\<lambda>x. rank goodness x \<le> rank goodness w) xs)
       \<and> (\<forall>ys. mset ys = mset xs \<longrightarrow> merge_all ys = merge_all xs)
       \<and> (\<forall>new old. rank goodness new = rank goodness old
             \<longrightarrow> only_if_worse new (Some old) goodness = old)"
proof (intro conjI allI impI)
  show "if xs = [] then merge_all xs = None
        else \<exists>w. merge_all xs = Some w \<and> w \<in> set xs
               \<and> list_all (\<lambda>x. rank goodness x \<le> rank goodness w) xs"
  proof (cases "xs = []")
    case True
    then show ?thesis by (simp add: merge_all_def)
  next
    case False
    from merge_all_worst [OF False] False show ?thesis by (simp add: list_all_iff)
  qed
next
  fix ys assume "mset ys = mset xs"
  with assms show "merge_all ys = merge_all xs" by (rule merge_all_permutation)
next
  fix new old assume "rank goodness new = rank goodness old"
  then show "only_if_worse new (Some old) goodness = old" by (simp add: only_if_worse_def)
qed

text \<open>The theorem at three outcomes and their reversal.\<close>

theorem only_if_worse_fold_worst_witness:
  "merge_all [''cookies-session-without-secure-flag'', ''cookies-without-secure-flag'',
              ''cookies-session-without-httponly-flag'']
     = Some ''cookies-session-without-httponly-flag''
   \<and> merge_all [''cookies-session-without-httponly-flag'', ''cookies-without-secure-flag'',
                ''cookies-session-without-secure-flag'']
     = Some ''cookies-session-without-httponly-flag''"
proof -
  let ?xs = "[''cookies-session-without-secure-flag'', ''cookies-without-secure-flag'',
              ''cookies-session-without-httponly-flag'']"
  let ?ys = "[''cookies-session-without-httponly-flag'', ''cookies-without-secure-flag'',
              ''cookies-session-without-secure-flag'']"
  have sub: "set ?xs \<subseteq> set goodness" by (simp add: goodness_def)
  have perm: "mset ?ys = mset ?xs" by (simp only: mset.simps add_mset_commute)
  have val: "merge_all ?ys = Some ''cookies-session-without-httponly-flag''" by code_simp
  from only_if_worse_fold_worst [OF sub] have "\<forall>ys. mset ys = mset ?xs \<longrightarrow> merge_all ys = merge_all ?xs"
    by (rule conjunct1 [OF conjunct2])
  then have "mset ?ys = mset ?xs \<longrightarrow> merge_all ?ys = merge_all ?xs" by (rule spec)
  with perm have "merge_all ?ys = merge_all ?xs" by (rule rev_mp)
  with val show ?thesis by (simp only: simp_thms)
qed

text \<open>
  Claim C10. The one store the analyzers make into the bundle is the \<open>httponly\<close>
  attribute that \<open>cookies\<close> sets on a cookie that has none. When \<open>cookies\<close> has
  returned a verdict and left the bundle \<open>rq'\<close>, running it again on \<open>rq'\<close> gives the
  same verdict and leaves \<open>rq'\<close> unchanged, and each of the other five analyzers, which
  only read the bundle, gives on \<open>rq'\<close> the verdict it gives on the original bundle.
\<close>

theorem analyzers_rerun_same_verdict:
  assumes "cookies P rq e = Inr (v, rq')"
  shows "cookies P rq' e = Inr (v, rq')
       \<and> strict_transport_security P rq' e1 = strict_transport_security P rq e1
       \<and> content_security_policy rq' e2 = content_security_policy rq e2
       \<and> x_content_type_options rq' e3 = x_content_type_options rq e3
       \<and> x_frame_options rq' e4 = x_frame_options rq e4
       \<and> x_xss_protection rq' e5 = x_xss_protection rq e5"
proof -
  from cookies_leaves_responses [OF assms] obtain cs where rq': "rq' = rq\<lparr>session_cookies := cs\<rparr>"
    by blast
  have "x_content_type_options rq' e3 = x_content_type_options rq e3"
    by (simp add: rq' x_content_type_options_def)
  moreover have "x_frame_options rq' e4 = x_frame_options rq e4"
    unfolding rq' x_frame_options_def csp_ignores_cookies by simp
  moreover have "x_xss_protection rq' e5 = x_xss_protection rq e5"
    unfolding rq' x_xss_protection_def csp_ignores_cookies by simp
  ultimately show ?thesis
    using cookies_again [OF assms] by (simp add: rq' hsts_ignores_cookies csp_ignores_cookies)
qed

text \<open>
  The theorem at a bundle with one session cookie whose \<open>HttpOnly\<close> is in \<open>_rest\<close>: the
  second run, on the bundle where the first has set \<open>httponly\<close>, returns the verdict of
  the first.
\<close>

theorem analyzers_rerun_same_verdict_witness:
  "cookies no_preload (example_reqs [] [example_cookie\<lparr>httponly := Some True\<rparr>])
       ''cookies-secure-with-httponly-sessions''
     = Inr (\<lparr>data = Some [(''SessionId'',
                            [(''domain'', CStr ''example.com''), (''expires'', CInt 12345),
                             (''httponly'', CBool True), (''max-age'', CNone),
                             (''path'', CStr ''/''), (''port'', CNone),
                             (''secure'', CBool False)])],
             expectation = ''cookies-secure-with-httponly-sessions'', pass = False,
             result = Some ''cookies-session-without-secure-flag''\<rparr>,
            example_reqs [] [example_cookie\<lparr>httponly := Some True\<rparr>])"
proof -
  have first: "cookies no_preload (example_reqs [] [example_cookie])
       ''cookies-secure-with-httponly-sessions''
     = Inr (\<lparr>data = Some [(''SessionId'',
                            [(''domain'', CStr ''example.com''), (''expires'', CInt 12345),
                             (''httponly'', CBool True), (''max-age'', CNone),
                             (''path'', CStr ''/''), (''port'', CNone),
                             (''secure'', CBool False)])],
             expectation = ''cookies-secure-with-httponly-sessions'', pass = False,
             result = Some ''cookies-session-without-secure-flag''\<rparr>,
            example_reqs [] [example_cookie\<lparr>httponly := Some True\<rparr>])"
    by code_simp
  from analyzers_rerun_same_verdict [OF first] show ?thesis by blast
qed

end
